theory Spec2Isabelle
  imports Main "HOL-Library.Word" "HOL-Library.AList"
begin

section \<open>Data model of \<open>tagged_arena_allocator.cpp\<close>\<close>

text \<open>
  \<open>size_t\<close> is taken as a 64-bit unsigned integer (LP64); its arithmetic wraps.
  \<open>ArenaTag\<close> is \<open>enum class ArenaTag : uint8_t\<close>: every 8-bit value is a value of
  the type, five of them are named.
\<close>

type_synonym size_t = "64 word"
type_synonym ArenaTag = "8 word"

definition SHARED :: ArenaTag where "SHARED = 0"
definition GAME :: ArenaTag where "GAME = 1"
definition RENDERING :: ArenaTag where "RENDERING = 2"
definition GPU :: ArenaTag where "GPU = 3"
definition COUNT :: ArenaTag where "COUNT = 4"

text \<open>\<open>static constexpr size_t BLOCK_SIZE = 8 * 1024 * 1024 * 2;\<close>\<close>

definition BLOCK_SIZE :: size_t where
  "BLOCK_SIZE = 8 * 1024 * 1024 * 2"

text \<open>
  Heap objects are named by addresses. A byte pointer (\<open>void*\<close>, \<open>uint8_t*\<close>) into a
  buffer is the buffer's address together with an index; \<open>nullptr\<close> is \<open>None\<close>.
\<close>

type_synonym addr = nat
type_synonym pointer = "addr \<times> size_t"

record ArenaBlock =
  data :: addr
  offset :: size_t

record BlockNode =
  block :: ArenaBlock
  nxt :: "addr option"

text \<open>
  The free store: the live \<open>BlockNode\<close>s by address, the live byte buffers, the values
  constructed by placement new, and the next unused address. An address is never handed
  out twice, so a pointer to a deleted object stays recognisable.
\<close>

record heap =
  nodes :: "(addr \<times> BlockNode) list"
  buffers :: "addr list"
  objects :: "pointer list"
  fresh :: addr

text \<open>\<open>BlockNode* blocks[static_cast<size_t>(ArenaTag::COUNT) - 1];\<close>\<close>

record TaggedArena =
  blocks :: "addr option list"

datatype error = OutOfBounds | NullDeref | UseAfterFree

definition empty_heap :: heap where
  "empty_heap = \<lparr>nodes = [], buffers = [], objects = [], fresh = 0\<rparr>"

section \<open>ArenaBlock\<close>

text \<open>Constructor: \<open>this->data = new uint8_t[BLOCK_SIZE]\<close>, with \<open>offset = 0\<close>.\<close>

definition ArenaBlock_new :: "heap \<Rightarrow> ArenaBlock \<times> heap" where
  "ArenaBlock_new h =
     (\<lparr>data = fresh h, offset = 0\<rparr>,
      h\<lparr>buffers := fresh h # buffers h, fresh := fresh h + 1\<rparr>)"

text \<open>
  Destructor: \<open>delete[] this->data\<close>. The buffer goes, and with it the storage of the
  values that were constructed in it (no destructor of theirs runs).
\<close>

definition ArenaBlock_delete :: "ArenaBlock \<Rightarrow> heap \<Rightarrow> heap" where
  "ArenaBlock_delete b h =
     h\<lparr>buffers := removeAll (data b) (buffers h),
       objects := filter (\<lambda>p. fst p \<noteq> data b) (objects h)\<rparr>"

text \<open>
  \<open>void* alloc(size_t size, size_t alignment)\<close>: the test, the two additions to
  \<open>offset\<close> and the pointer \<open>&this->data[this->offset]\<close> taken between them.
\<close>

definition ArenaBlock_alloc ::
  "ArenaBlock \<Rightarrow> size_t \<Rightarrow> size_t \<Rightarrow> pointer option \<times> ArenaBlock" where
  "ArenaBlock_alloc b sz alignment =
     (if sz + alignment + offset b > BLOCK_SIZE then (None, b)
      else
        let b1 = b\<lparr>offset := offset b + alignment\<rparr>;
            p = (data b1, offset b1);
            b2 = b1\<lparr>offset := offset b1 + sz\<rparr>
        in (Some p, b2))"

section \<open>BlockNode on the free store\<close>

text \<open>\<open>new BlockNode { .block = b, .next = n }\<close>\<close>

definition BlockNode_new :: "ArenaBlock \<Rightarrow> addr option \<Rightarrow> heap \<Rightarrow> addr \<times> heap" where
  "BlockNode_new b n h =
     (fresh h,
      h\<lparr>nodes := (fresh h, \<lparr>block = b, nxt = n\<rparr>) # nodes h, fresh := fresh h + 1\<rparr>)"

text \<open>
  \<open>node->block.alloc(size, alignment)\<close> through a node pointer: the node is read from
  the free store and its block written back. A node that was deleted is not there.
\<close>

definition BlockNode_alloc ::
  "addr \<Rightarrow> size_t \<Rightarrow> size_t \<Rightarrow> heap \<Rightarrow> error + (pointer option \<times> heap)" where
  "BlockNode_alloc a sz alignment h =
     (case map_of (nodes h) a of
        None \<Rightarrow> Inl UseAfterFree
      | Some nd \<Rightarrow>
          (case ArenaBlock_alloc (block nd) sz alignment of
             (p, b') \<Rightarrow> Inr (p, h\<lparr>nodes := AList.update a (nd\<lparr>block := b'\<rparr>) (nodes h)\<rparr>)))"

section \<open>TaggedArena\<close>

text \<open>
  Constructor: \<open>for (uint8_t i = 0; i < static_cast<uint8_t>(ArenaTag::COUNT) - 1; i++)
  this->blocks[i] = new BlockNode { .block = ArenaBlock(), .next = nullptr };\<close>
  The array starts uninitialised; every slot of it is assigned by the loop.
\<close>

definition ctor_step :: "TaggedArena \<times> heap \<Rightarrow> nat \<Rightarrow> TaggedArena \<times> heap" where
  "ctor_step s i =
     (case s of (ar, h) \<Rightarrow>
        (case ArenaBlock_new h of (b, h1) \<Rightarrow>
           (case BlockNode_new b None h1 of (a, h2) \<Rightarrow>
              (ar\<lparr>blocks := (blocks ar)[i := Some a]\<rparr>, h2))))"

definition TaggedArena_new :: "heap \<Rightarrow> TaggedArena \<times> heap" where
  "TaggedArena_new h =
     foldl ctor_step (\<lparr>blocks = replicate (unat COUNT - 1) None\<rparr>, h) [0..<unat COUNT - 1]"

text \<open>
  \<open>void* alloc(ArenaTag tag, size_t size, size_t alignment)\<close>. Reading
  \<open>this->blocks[i]\<close> past the end of the array, and calling through a null or a deleted
  node, are undefined in C++; the model stops there with an error.
\<close>

definition TaggedArena_alloc ::
  "TaggedArena \<Rightarrow> heap \<Rightarrow> ArenaTag \<Rightarrow> size_t \<Rightarrow> size_t
     \<Rightarrow> error + (pointer option \<times> TaggedArena \<times> heap)" where
  "TaggedArena_alloc ar h tag sz alignment =
     (if sz > BLOCK_SIZE \<or> tag = COUNT then Inr (None, ar, h)
      else if \<not> unat tag < length (blocks ar) then Inl OutOfBounds
      else
        (case blocks ar ! unat tag of
           None \<Rightarrow> Inl NullDeref
         | Some node \<Rightarrow>
             (case BlockNode_alloc node sz alignment h of
                Inl e \<Rightarrow> Inl e
              | Inr (Some p, h1) \<Rightarrow> Inr (Some p, ar, h1)
              | Inr (None, h1) \<Rightarrow>
                  (case ArenaBlock_new h1 of (b, h2) \<Rightarrow>
                     (case BlockNode_new b (Some node) h2 of (node', h3) \<Rightarrow>
                        (case BlockNode_alloc node' sz alignment h3 of
                           Inl e \<Rightarrow> Inl e
                         | Inr (bytes, h4) \<Rightarrow>
                             Inr (bytes,
                                  ar\<lparr>blocks := (blocks ar)[unat tag := Some node']\<rparr>,
                                  h4)))))))"

text \<open>
  \<open>new(data) T\<close>: a value is constructed at \<open>data\<close>. With \<open>data == nullptr\<close> the
  construction has no storage to run on.
\<close>

definition placement_new :: "pointer option \<Rightarrow> heap \<Rightarrow> error + heap" where
  "placement_new d h =
     (case d of
        None \<Rightarrow> Inl NullDeref
      | Some p \<Rightarrow> Inr (h\<lparr>objects := p # objects h\<rparr>))"

text \<open>
  \<open>template<typename T> T* alloc(ArenaTag tag, size_t alignment = alignof(T))\<close>, with
  \<open>sizeof(T)\<close> as a parameter.
\<close>

definition TaggedArena_alloc_T ::
  "TaggedArena \<Rightarrow> heap \<Rightarrow> ArenaTag \<Rightarrow> size_t \<Rightarrow> size_t
     \<Rightarrow> error + (pointer option \<times> TaggedArena \<times> heap)" where
  "TaggedArena_alloc_T ar h tag sizeof_T alignment =
     (case TaggedArena_alloc ar h tag sizeof_T alignment of
        Inl e \<Rightarrow> Inl e
      | Inr (d, ar', h') \<Rightarrow>
          (case placement_new d h' of
             Inl e \<Rightarrow> Inl e
           | Inr h'' \<Rightarrow> Inr (d, ar', h'')))"

text \<open>
  The loop of \<open>free\<close>: \<open>while (node) { BlockNode* next = node->next; delete node;
  node = next; }\<close>. Deleting a node runs the destructor of its block.
\<close>

function free_loop :: "addr option \<Rightarrow> heap \<Rightarrow> error + heap" where
  "free_loop None h = Inr h"
| "free_loop (Some a) h =
     (case map_of (nodes h) a of
        None \<Rightarrow> Inl UseAfterFree
      | Some nd \<Rightarrow>
          free_loop (nxt nd)
            (ArenaBlock_delete (block nd) (h\<lparr>nodes := AList.delete a (nodes h)\<rparr>)))"
  by pat_completeness auto
termination
proof (relation "measure (\<lambda>(n, h). length (nodes h))")
  show "wf (measure (\<lambda>(n, h). length (nodes h)))" by simp
next
  fix a :: addr and h :: heap and nd :: BlockNode
  assume live: "map_of (nodes h) a = Some nd"
  have shrink: "map_of xs a = Some nd \<Longrightarrow> length (AList.delete a xs) < length xs"
    for xs :: "(addr \<times> BlockNode) list"
  proof (induction xs)
    case Nil
    then show ?case by simp
  next
    case (Cons x xs)
    then show ?case
      using AList.length_delete_le [of a xs]
      by (cases x) (auto simp: AList.delete_eq less_Suc_eq_le split: if_splits)
  qed
  from shrink [OF live]
  show "((nxt nd, ArenaBlock_delete (block nd) (h\<lparr>nodes := AList.delete a (nodes h)\<rparr>)),
         (Some a, h)) \<in> measure (\<lambda>(n, h). length (nodes h))"
    by (simp add: ArenaBlock_delete_def)
qed

text \<open>\<open>void free(ArenaTag tag)\<close>: the array slot itself is left as it was.\<close>

definition TaggedArena_free :: "TaggedArena \<Rightarrow> heap \<Rightarrow> ArenaTag \<Rightarrow> error + (TaggedArena \<times> heap)" where
  "TaggedArena_free ar h tag =
     (if tag = COUNT then Inr (ar, h)
      else if \<not> unat tag < length (blocks ar) then Inl OutOfBounds
      else
        (case free_loop (blocks ar ! unat tag) h of
           Inl e \<Rightarrow> Inl e
         | Inr h' \<Rightarrow> Inr (ar, h')))"

text \<open>A freshly constructed arena on an empty free store.\<close>

definition fresh_arena :: "TaggedArena \<times> heap" where
  "fresh_arena = TaggedArena_new empty_heap"

section \<open>Runs of requests on one block\<close>

text \<open>
  A run is a list of requests \<open>(size, alignment)\<close> made one after the other on the same
  block. \<open>offsets\<close> lists the offset before the first request and after each one,
  \<open>served\<close> the pointer each request returned, \<open>ranges\<close> the byte range (first index
  and length, inside the block's buffer) of each request that was served.
\<close>

fun offsets :: "ArenaBlock \<Rightarrow> (size_t \<times> size_t) list \<Rightarrow> nat list" where
  "offsets b [] = [unat (offset b)]"
| "offsets b ((sz, al) # rs) = unat (offset b) # offsets (snd (ArenaBlock_alloc b sz al)) rs"

fun served :: "ArenaBlock \<Rightarrow> (size_t \<times> size_t) list \<Rightarrow> pointer option list" where
  "served b [] = []"
| "served b ((sz, al) # rs) =
     fst (ArenaBlock_alloc b sz al) # served (snd (ArenaBlock_alloc b sz al)) rs"

fun ranges :: "ArenaBlock \<Rightarrow> (size_t \<times> size_t) list \<Rightarrow> (nat \<times> nat) list" where
  "ranges b [] = []"
| "ranges b ((sz, al) # rs) =
     (case ArenaBlock_alloc b sz al of
        (None, b') \<Rightarrow> ranges b' rs
      | (Some p, b') \<Rightarrow> (unat (snd p), unat sz) # ranges b' rs)"

text \<open>No request of the run makes \<open>size + alignment + offset\<close> leave the range of \<open>size_t\<close>.\<close>

fun no_wrap :: "ArenaBlock \<Rightarrow> (size_t \<times> size_t) list \<Rightarrow> bool" where
  "no_wrap b [] = True"
| "no_wrap b ((sz, al) # rs) =
     (unat sz + unat al + unat (offset b) < 2 ^ 64 \<and>
      no_wrap (snd (ArenaBlock_alloc b sz al)) rs)"

definition disjoint_ranges :: "nat \<times> nat \<Rightarrow> nat \<times> nat \<Rightarrow> bool" where
  "disjoint_ranges r s =
     ({fst r ..< fst r + snd r} \<inter> {fst s ..< fst s + snd s} = {})"

text \<open>The free store has handed out only addresses below \<open>fresh\<close>.\<close>

definition heap_ok :: "heap \<Rightarrow> bool" where
  "heap_ok h = (list_all (\<lambda>a. a < fresh h) (map fst (nodes h)) \<and>
                list_all (\<lambda>d. d < fresh h) (buffers h))"

text \<open>
  Destructor: \<open>for (uint8_t i = 0; i < static_cast<uint8_t>(ArenaTag::COUNT) - 1; i++)
  this->free(static_cast<ArenaTag>(i));\<close>
\<close>

definition dtor_step ::
  "error + (TaggedArena \<times> heap) \<Rightarrow> nat \<Rightarrow> error + (TaggedArena \<times> heap)" where
  "dtor_step s i =
     (case s of
        Inl e \<Rightarrow> Inl e
      | Inr (ar, h) \<Rightarrow> TaggedArena_free ar h (of_nat i))"

definition TaggedArena_delete :: "TaggedArena \<Rightarrow> heap \<Rightarrow> error + (TaggedArena \<times> heap)" where
  "TaggedArena_delete ar h = foldl dtor_step (Inr (ar, h)) [0..<unat COUNT - 1]"

section \<open>The freshly constructed arena\<close>

lemma fresh_arena_eq:
  "fresh_arena =
     (\<lparr>blocks = [Some 1, Some 3, Some 5]\<rparr>,
      \<lparr>nodes = [(5, \<lparr>block = \<lparr>data = 4, offset = 0\<rparr>, nxt = None\<rparr>),
                (3, \<lparr>block = \<lparr>data = 2, offset = 0\<rparr>, nxt = None\<rparr>),
                (1, \<lparr>block = \<lparr>data = 0, offset = 0\<rparr>, nxt = None\<rparr>)],
        buffers = [4, 2, 0], objects = [], fresh = 6\<rparr>)"
proof -
  have u: "[0..<unat COUNT - 1] = [0, 1, 2]"
    by (simp add: COUNT_def upt_conv_Cons)
  have r: "replicate (unat COUNT - 1) None = [None, None, None :: addr option]"
    by (simp add: COUNT_def numeral_3_eq_3)
  show ?thesis
    unfolding fresh_arena_def TaggedArena_new_def u r
    by (simp add: ctor_step_def ArenaBlock_new_def BlockNode_new_def empty_heap_def)
qed

section \<open>The block size\<close>

text \<open>
  Claim C5: the constant \<open>BLOCK_SIZE\<close> is 2 MiB (2,097,152 bytes). The initialiser
  \<open>8 * 1024 * 1024 * 2\<close> evaluates to 16,777,216, which is 16 MiB: the number of
  \<^emph>\<open>bits\<close> in 2 MiB. The comment beside it, the file's header and the README all say
  2 MiB.
\<close>

theorem BLOCK_SIZE_value:
  "unat BLOCK_SIZE = 16777216 \<and> unat BLOCK_SIZE \<noteq> 2 * 1024 * 1024"
  by (simp add: BLOCK_SIZE_def)

section \<open>The size ceiling\<close>

text \<open>
  Claim C7: \<open>TaggedArena::alloc\<close> with \<open>size > BLOCK_SIZE\<close> fails at once, for every tag:
  it returns the null pointer, and neither the arena nor the free store is touched (no
  block is asked and none is created).
\<close>

theorem alloc_over_ceiling:
  "BLOCK_SIZE < sz \<Longrightarrow> TaggedArena_alloc ar h tag sz al = Inr (None, ar, h)"
  by (simp add: TaggedArena_alloc_def)

theorem alloc_over_ceiling_witness:
  "BLOCK_SIZE < BLOCK_SIZE + 1 \<and>
   TaggedArena_alloc (fst fresh_arena) (snd fresh_arena) GAME (BLOCK_SIZE + 1) 1 =
     Inr (None, fst fresh_arena, snd fresh_arena)"
proof -
  have h: "BLOCK_SIZE < BLOCK_SIZE + 1" by (simp add: BLOCK_SIZE_def)
  show ?thesis
    using h alloc_over_ceiling [OF h, of "fst fresh_arena" "snd fresh_arena" GAME 1] by simp
qed

section \<open>One chain per tag\<close>

text \<open>
  Claim C1: construction yields a ready chain for each of the four real tags, and
  \<open>alloc\<close> and \<open>free\<close> reach the chain of every non-sentinel tag inside the array of
  chains. The array is declared with \<open>COUNT - 1 = 3\<close> slots and the constructor fills
  three, so the fourth real tag, \<open>GPU\<close>, has no slot: on a freshly constructed arena
  both operations index past the end of \<open>blocks\<close>.
\<close>

theorem GPU_has_no_chain:
  "length (blocks (fst fresh_arena)) = 3 \<and>
   TaggedArena_alloc (fst fresh_arena) (snd fresh_arena) GPU 1 1 = Inl OutOfBounds \<and>
   TaggedArena_free (fst fresh_arena) (snd fresh_arena) GPU = Inl OutOfBounds"
  by (simp add: fresh_arena_eq TaggedArena_alloc_def TaggedArena_free_def
      BLOCK_SIZE_def GPU_def COUNT_def)

section \<open>Freeing a tag\<close>

lemma free_GAME:
  "TaggedArena_free (fst fresh_arena) (snd fresh_arena) GAME =
     Inr (\<lparr>blocks = [Some 1, Some 3, Some 5]\<rparr>,
          \<lparr>nodes = [(5, \<lparr>block = \<lparr>data = 4, offset = 0\<rparr>, nxt = None\<rparr>),
                    (1, \<lparr>block = \<lparr>data = 0, offset = 0\<rparr>, nxt = None\<rparr>)],
            buffers = [4, 0], objects = [], fresh = 6\<rparr>)"
  by (simp add: fresh_arena_eq TaggedArena_free_def GAME_def COUNT_def
      ArenaBlock_delete_def AList.delete_eq)

text \<open>
  Claim C2: after \<open>free(tag)\<close> the tag's chain is empty and the next allocation under
  the tag succeeds on a fresh first block. \<open>free\<close> deletes the nodes and leaves
  \<open>blocks[tag]\<close> pointing at the deleted head; \<open>alloc\<close> then calls through that
  pointer. On a fresh arena, after \<open>free(GAME)\<close>: the slot still holds node 3, node 3 is
  gone from the free store, and \<open>alloc(GAME, 1, 1)\<close> uses it.
\<close>

theorem alloc_after_free:
  "(case TaggedArena_free (fst fresh_arena) (snd fresh_arena) GAME of
      Inl e \<Rightarrow> False
    | Inr (ar, h) \<Rightarrow>
        blocks ar ! unat GAME = Some 3 \<and> map_of (nodes h) 3 = None \<and>
        TaggedArena_alloc ar h GAME 1 1 = Inl UseAfterFree)"
  unfolding free_GAME
  by (simp add: TaggedArena_alloc_def BlockNode_alloc_def BLOCK_SIZE_def GAME_def COUNT_def)

text \<open>
  Claim C3: \<open>free(tag)\<close> on an already freed tag succeeds and changes nothing. The
  second \<open>free(GAME)\<close> starts its walk at the deleted head and reads \<open>node->next\<close> from
  it. The destructor frees every slot, so destroying an arena after \<open>free(GAME)\<close>, as
  \<open>main\<close> does, runs into the same read.
\<close>

theorem free_twice:
  "(case TaggedArena_free (fst fresh_arena) (snd fresh_arena) GAME of
      Inl e \<Rightarrow> False
    | Inr (ar, h) \<Rightarrow>
        TaggedArena_free ar h GAME = Inl UseAfterFree \<and>
        TaggedArena_delete ar h = Inl UseAfterFree)"
proof -
  have u: "[0..<unat COUNT - 1] = [0, 1, 2]"
    by (simp add: COUNT_def upt_conv_Cons)
  show ?thesis
    unfolding free_GAME TaggedArena_delete_def u
    by (simp add: dtor_step_def TaggedArena_free_def GAME_def COUNT_def
        ArenaBlock_delete_def AList.delete_eq)
qed

section \<open>Tags outside the array\<close>

text \<open>
  Claim C8, as stated: the sentinel and every out-of-range tag value are handled without
  a fault. Only the sentinel is tested for; the tag value 5 indexes past the array in both
  operations.
\<close>

theorem tag_out_of_range:
  "TaggedArena_alloc (fst fresh_arena) (snd fresh_arena) 5 1 1 = Inl OutOfBounds \<and>
   TaggedArena_free (fst fresh_arena) (snd fresh_arena) 5 = Inl OutOfBounds"
  by (simp add: fresh_arena_eq TaggedArena_alloc_def TaggedArena_free_def
      BLOCK_SIZE_def COUNT_def)

text \<open>
  Claim C8, amended: passing the sentinel \<open>COUNT\<close> is handled without a fault, on every
  arena and for every size and alignment: \<open>alloc\<close> returns the null pointer and changes
  nothing, \<open>free\<close> does nothing.
\<close>

theorem sentinel_tag:
  "TaggedArena_alloc ar h COUNT sz al = Inr (None, ar, h) \<and>
   TaggedArena_free ar h COUNT = Inr (ar, h)"
  by (simp add: TaggedArena_alloc_def TaggedArena_free_def)

section \<open>Typed allocation\<close>

lemma alloc_too_wide:
  "TaggedArena_alloc (fst fresh_arena) (snd fresh_arena) GAME 8 BLOCK_SIZE =
     Inr (None, \<lparr>blocks = [Some 1, Some 7, Some 5]\<rparr>,
      \<lparr>nodes =
         [(7, \<lparr>block = \<lparr>data = 6, offset = 0\<rparr>, nxt = Some 3\<rparr>),
          (5, \<lparr>block = \<lparr>data = 4, offset = 0\<rparr>, nxt = None\<rparr>),
          (3, \<lparr>block = \<lparr>data = 2, offset = 0\<rparr>, nxt = None\<rparr>),
          (1, \<lparr>block = \<lparr>data = 0, offset = 0\<rparr>, nxt = None\<rparr>)],
         buffers = [6, 4, 2, 0], objects = [], fresh = 8\<rparr>)"
  by (simp add: fresh_arena_eq TaggedArena_alloc_def BlockNode_alloc_def ArenaBlock_alloc_def
      ArenaBlock_new_def BlockNode_new_def BLOCK_SIZE_def GAME_def COUNT_def)

text \<open>
  Claim C9: when the raw allocation fails, the typed allocation returns the failure
  without constructing a value. \<open>alloc<T>\<close> runs \<open>new(data) T\<close> on whatever the raw
  allocation returned, with no test in between: with the sentinel tag (on any arena), and
  with an 8-byte type and an alignment of \<open>BLOCK_SIZE\<close> under \<open>GAME\<close> on a fresh arena,
  the raw allocation returns the null pointer and the construction runs on it.
\<close>

theorem typed_alloc_constructs_at_null:
  "TaggedArena_alloc_T ar h COUNT sizeof_T al = Inl NullDeref \<and>
   TaggedArena_alloc_T (fst fresh_arena) (snd fresh_arena) GAME 8 BLOCK_SIZE = Inl NullDeref"
proof
  show "TaggedArena_alloc_T ar h COUNT sizeof_T al = Inl NullDeref"
    by (simp add: TaggedArena_alloc_T_def TaggedArena_alloc_def placement_new_def)
  show "TaggedArena_alloc_T (fst fresh_arena) (snd fresh_arena) GAME 8 BLOCK_SIZE = Inl NullDeref"
    unfolding TaggedArena_alloc_T_def alloc_too_wide
    by (simp add: placement_new_def)
qed

section \<open>Bump allocation in one block\<close>

text \<open>
  Claim C4: \<open>ArenaBlock::alloc\<close> succeeds exactly when \<open>offset + alignment + size\<close> is at
  most \<open>BLOCK_SIZE\<close>, and then advances the offset by \<open>alignment + size\<close>. The test adds
  the three numbers in \<open>size_t\<close>, where the sum wraps: on a new block, a request of
  \<open>2^64 - 1\<close> bytes with alignment 1 has the sum \<open>2^64\<close>, far above \<open>BLOCK_SIZE\<close>, yet
  it is served, with a pointer to index 1 and the offset back at 0. Through the arena,
  \<open>alloc(GAME, 1, 2^64 - 1)\<close> passes the size ceiling and is served the same way, with a
  pointer to index \<open>2^64 - 1\<close> of the buffer.
\<close>

theorem ArenaBlock_alloc_wraps:
  "ArenaBlock_alloc \<lparr>data = 0, offset = 0\<rparr> 18446744073709551615 1 =
     (Some (0, 1), \<lparr>data = 0, offset = 0\<rparr>) \<and>
   \<not> unat (0 :: size_t) + unat (1 :: size_t) + unat (18446744073709551615 :: size_t)
       \<le> unat BLOCK_SIZE \<and>
   TaggedArena_alloc (fst fresh_arena) (snd fresh_arena) GAME 1 18446744073709551615 =
     Inr (Some (2, 18446744073709551615), fst fresh_arena, snd fresh_arena)"
  by (simp add: ArenaBlock_alloc_def BLOCK_SIZE_def fresh_arena_eq TaggedArena_alloc_def
      BlockNode_alloc_def GAME_def COUNT_def)

text \<open>Where the sum does not wrap, the test and the new offset are the mathematical ones.\<close>

lemma ArenaBlock_alloc_no_wrap:
  assumes "unat sz + unat al + unat (offset b) < 2 ^ 64"
  shows "ArenaBlock_alloc b sz al =
           (if unat (offset b) + unat al + unat sz \<le> unat BLOCK_SIZE
            then (Some (data b, offset b + al), b\<lparr>offset := offset b + al + sz\<rparr>)
            else (None, b))"
    and "unat (offset b + al) = unat (offset b) + unat al"
    and "unat (offset b + al + sz) = unat (offset b) + unat al + unat sz"
proof -
  have 1: "unat (sz + al) = unat sz + unat al"
    using assms by (intro unat_add_lem [THEN iffD1]) simp
  have 2: "unat (sz + al + offset b) = unat sz + unat al + unat (offset b)"
    using assms 1 by (intro unat_add_lem [THEN iffD1, THEN trans]) simp_all
  show 3: "unat (offset b + al) = unat (offset b) + unat al"
    using assms by (intro unat_add_lem [THEN iffD1]) simp
  show 4: "unat (offset b + al + sz) = unat (offset b) + unat al + unat sz"
    using assms 3 by (intro unat_add_lem [THEN iffD1, THEN trans]) simp_all
  show "ArenaBlock_alloc b sz al =
           (if unat (offset b) + unat al + unat sz \<le> unat BLOCK_SIZE
            then (Some (data b, offset b + al), b\<lparr>offset := offset b + al + sz\<rparr>)
            else (None, b))"
    using 2 by (auto simp: ArenaBlock_alloc_def Let_def word_less_nat_alt)
qed

lemma offset_step:
  assumes "unat sz + unat al + unat (offset b) < 2 ^ 64"
  shows "unat (offset b) \<le> unat (offset (snd (ArenaBlock_alloc b sz al)))"
    and "fst (ArenaBlock_alloc b sz al) \<noteq> None \<Longrightarrow> sz \<noteq> 0 \<or> al \<noteq> 0 \<Longrightarrow>
          unat (offset b) < unat (offset (snd (ArenaBlock_alloc b sz al)))"
  using ArenaBlock_alloc_no_wrap [OF assms]
  by (auto simp: unat_gt_0 split: if_splits)

lemma offsets_hd: "hd (offsets b rs) = unat (offset b)"
  by (cases rs) auto

lemma offsets_ge: "no_wrap b rs \<Longrightarrow> x \<in> set (offsets b rs) \<Longrightarrow> unat (offset b) \<le> x"
proof (induction rs arbitrary: b)
  case Nil
  then show ?case by simp
next
  case (Cons r rs)
  obtain sz al where r: "r = (sz, al)" by (cases r)
  from Cons.prems r have nw: "unat sz + unat al + unat (offset b) < 2 ^ 64"
    and rest: "no_wrap (snd (ArenaBlock_alloc b sz al)) rs" by simp_all
  show ?case
  proof (cases "x = unat (offset b)")
    case True
    then show ?thesis by simp
  next
    case False
    with Cons.prems r have "x \<in> set (offsets (snd (ArenaBlock_alloc b sz al)) rs)" by simp
    from Cons.IH [OF rest this] offset_step(1) [OF nw] show ?thesis by simp
  qed
qed

lemma offsets_sorted: "no_wrap b rs \<Longrightarrow> sorted (offsets b rs)"
proof (induction rs arbitrary: b)
  case Nil
  then show ?case by simp
next
  case (Cons r rs)
  obtain sz al where r: "r = (sz, al)" by (cases r)
  from Cons.prems r have nw: "unat sz + unat al + unat (offset b) < 2 ^ 64"
    and rest: "no_wrap (snd (ArenaBlock_alloc b sz al)) rs" by simp_all
  have "\<forall>x \<in> set (offsets (snd (ArenaBlock_alloc b sz al)) rs). unat (offset b) \<le> x"
    using offsets_ge [OF rest] offset_step(1) [OF nw] by fastforce
  with Cons.IH [OF rest] r show ?case by simp
qed

lemma offsets_strict:
  "no_wrap b rs \<Longrightarrow> i < length rs \<Longrightarrow> served b rs ! i \<noteq> None \<Longrightarrow>
   fst (rs ! i) \<noteq> 0 \<or> snd (rs ! i) \<noteq> 0 \<Longrightarrow>
   offsets b rs ! i < offsets b rs ! Suc i"
proof (induction rs arbitrary: b i)
  case Nil
  then show ?case by simp
next
  case (Cons r rs)
  obtain sz al where r: "r = (sz, al)" by (cases r)
  from Cons.prems r have nw: "unat sz + unat al + unat (offset b) < 2 ^ 64"
    and rest: "no_wrap (snd (ArenaBlock_alloc b sz al)) rs" by simp_all
  show ?case
  proof (cases i)
    case 0
    with Cons.prems r offset_step(2) [OF nw] show ?thesis
      by (cases rs) (auto simp: offsets_hd)
  next
    case (Suc j)
    with Cons.prems r Cons.IH [OF rest, of j] show ?thesis by simp
  qed
qed

lemma ranges_ge:
  "no_wrap b rs \<Longrightarrow> r \<in> set (ranges b rs) \<Longrightarrow> unat (offset b) \<le> fst r"
proof (induction rs arbitrary: b)
  case Nil
  then show ?case by simp
next
  case (Cons q rs)
  obtain sz al where q: "q = (sz, al)" by (cases q)
  from Cons.prems q have nw: "unat sz + unat al + unat (offset b) < 2 ^ 64"
    and rest: "no_wrap (snd (ArenaBlock_alloc b sz al)) rs" by simp_all
  note step = ArenaBlock_alloc_no_wrap [OF nw]
  show ?case
  proof (cases "unat (offset b) + unat al + unat sz \<le> unat BLOCK_SIZE")
    case True
    with Cons.prems(2) q step
    consider "r = (unat (offset b + al), unat sz)"
      | "r \<in> set (ranges (b\<lparr>offset := offset b + al + sz\<rparr>) rs)"
      by auto
    then show ?thesis
    proof cases
      case 1
      with step(2) show ?thesis by simp
    next
      case 2
      from rest step(1) True have "no_wrap (b\<lparr>offset := offset b + al + sz\<rparr>) rs" by simp
      from Cons.IH [OF this 2] step(3) show ?thesis by simp
    qed
  next
    case False
    with Cons.prems(2) q step rest Cons.IH [of b] show ?thesis by simp
  qed
qed

lemma ranges_disjoint: "no_wrap b rs \<Longrightarrow> sorted_wrt disjoint_ranges (ranges b rs)"
proof (induction rs arbitrary: b)
  case Nil
  then show ?case by simp
next
  case (Cons q rs)
  obtain sz al where q: "q = (sz, al)" by (cases q)
  from Cons.prems q have nw: "unat sz + unat al + unat (offset b) < 2 ^ 64"
    and rest: "no_wrap (snd (ArenaBlock_alloc b sz al)) rs" by simp_all
  note step = ArenaBlock_alloc_no_wrap [OF nw]
  show ?case
  proof (cases "unat (offset b) + unat al + unat sz \<le> unat BLOCK_SIZE")
    case True
    let ?b' = "b\<lparr>offset := offset b + al + sz\<rparr>"
    from rest step(1) True have nw': "no_wrap ?b' rs" by simp
    have "disjoint_ranges (unat (offset b + al), unat sz) r" if "r \<in> set (ranges ?b' rs)" for r
      using ranges_ge [OF nw' that] step(2,3) by (auto simp: disjoint_ranges_def)
    with Cons.IH [OF nw'] q step(1) True show ?thesis by simp
  next
    case False
    with q step rest Cons.IH [of b] show ?thesis by simp
  qed
qed

text \<open>
  Claim C6, as stated: across successful allocations on one block the offset strictly
  increases. A request of size 0 with alignment 0 is served and leaves the offset where
  it was.
\<close>

theorem zero_request_does_not_advance:
  "served \<lparr>data = 0, offset = 0\<rparr> [(0, 0)] = [Some (0, 0)] \<and>
   offsets \<lparr>data = 0, offset = 0\<rparr> [(0, 0)] = [0, 0] \<and>
   \<not> offsets \<lparr>data = 0, offset = 0\<rparr> [(0, 0)] ! 0 < offsets \<lparr>data = 0, offset = 0\<rparr> [(0, 0)] ! 1"
  by (simp add: ArenaBlock_alloc_def BLOCK_SIZE_def)

text \<open>
  Claim C6, amended: in a run of requests on one block in which no sum
  \<open>size + alignment + offset\<close> leaves the range of \<open>size_t\<close>, the offset never
  decreases, it strictly increases across every served request whose size and alignment
  are not both 0, and the byte range of each served request is disjoint from the byte
  range of every request served later.
\<close>

theorem bump_monotone:
  assumes "no_wrap b rs"
  shows "sorted (offsets b rs) \<and>
         (\<forall>i < length rs. served b rs ! i \<noteq> None \<and> (fst (rs ! i) \<noteq> 0 \<or> snd (rs ! i) \<noteq> 0)
            \<longrightarrow> offsets b rs ! i < offsets b rs ! Suc i) \<and>
         sorted_wrt disjoint_ranges (ranges b rs)"
  using offsets_sorted [OF assms] offsets_strict [OF assms] ranges_disjoint [OF assms]
  by blast

theorem bump_monotone_witness:
  "no_wrap \<lparr>data = 0, offset = 0\<rparr> [(1, 1), (16, 8), (0, 0)] \<and>
   served \<lparr>data = 0, offset = 0\<rparr> [(1, 1), (16, 8), (0, 0)] = [Some (0, 1), Some (0, 10), Some (0, 26)] \<and>
   offsets \<lparr>data = 0, offset = 0\<rparr> [(1, 1), (16, 8), (0, 0)] = [0, 2, 26, 26] \<and>
   ranges \<lparr>data = 0, offset = 0\<rparr> [(1, 1), (16, 8), (0, 0)] = [(1, 1), (10, 16), (26, 0)] \<and>
   sorted (offsets \<lparr>data = 0, offset = 0\<rparr> [(1, 1), (16, 8), (0, 0)]) \<and>
   offsets \<lparr>data = 0, offset = 0\<rparr> [(1, 1), (16, 8), (0, 0)] ! 1
     < offsets \<lparr>data = 0, offset = 0\<rparr> [(1, 1), (16, 8), (0, 0)] ! Suc 1 \<and>
   sorted_wrt disjoint_ranges (ranges \<lparr>data = 0, offset = 0\<rparr> [(1, 1), (16, 8), (0, 0)])"
proof -
  let ?b = "\<lparr>data = 0, offset = 0\<rparr>"
  let ?rs = "[(1, 1), (16, 8), (0, 0)] :: (size_t \<times> size_t) list"
  have h: "no_wrap ?b ?rs"
    by (simp add: ArenaBlock_alloc_def BLOCK_SIZE_def)
  have s: "served ?b ?rs = [Some (0, 1), Some (0, 10), Some (0, 26)]"
    by (simp add: ArenaBlock_alloc_def BLOCK_SIZE_def)
  have off: "offsets ?b ?rs = [0, 2, 26, 26]"
    by (simp add: ArenaBlock_alloc_def BLOCK_SIZE_def)
  have r: "ranges ?b ?rs = [(1, 1), (10, 16), (26, 0)]"
    by (simp add: ArenaBlock_alloc_def BLOCK_SIZE_def)
  from bump_monotone [OF h]
  have m: "sorted (offsets ?b ?rs)"
    and st: "\<forall>i < length ?rs. served ?b ?rs ! i \<noteq> None \<and> (fst (?rs ! i) \<noteq> 0 \<or> snd (?rs ! i) \<noteq> 0)
            \<longrightarrow> offsets ?b ?rs ! i < offsets ?b ?rs ! Suc i"
    and d: "sorted_wrt disjoint_ranges (ranges ?b ?rs)"
    by blast+
  from st have "1 < length ?rs \<and> served ?b ?rs ! 1 \<noteq> None \<and> (fst (?rs ! 1) \<noteq> 0 \<or> snd (?rs ! 1) \<noteq> 0)
            \<longrightarrow> offsets ?b ?rs ! 1 < offsets ?b ?rs ! Suc 1" by blast
  then have st1: "offsets ?b ?rs ! 1 < offsets ?b ?rs ! Suc 1"
    unfolding s by simp
  from h s off r m st1 d show ?thesis by blast
qed

section \<open>Growth of a chain\<close>

text \<open>
  Claim C10: for a tag that has a slot in the array and is not the sentinel, when the
  block at the head of the chain cannot serve the request, \<open>alloc\<close> creates a new block
  and makes it the head of the chain, with the old head behind it; this happens also
  when the new block cannot serve the request either, which is the case exactly when
  \<open>size + alignment\<close> (in \<open>size_t\<close>) exceeds \<open>BLOCK_SIZE\<close>. The caller then gets the
  null pointer, and the chain has one more block all the same. (The source stores the
  new head into the array after the second attempt rather than before it; the state
  returned is the same.)
\<close>

theorem failed_growth_keeps_new_block:
  assumes tag: "tag \<noteq> COUNT" "unat tag < length (blocks ar)"
    and sz: "sz \<le> BLOCK_SIZE"
    and head: "blocks ar ! unat tag = Some node" "map_of (nodes h) node = Some nd"
    and full: "fst (ArenaBlock_alloc (block nd) sz al) = None"
    and ok: "heap_ok h"
  shows "TaggedArena_alloc ar h tag sz al =
           Inr (fst (ArenaBlock_alloc \<lparr>data = fresh h, offset = 0\<rparr> sz al),
                ar\<lparr>blocks := (blocks ar)[unat tag := Some (fresh h + 1)]\<rparr>,
                h\<lparr>nodes := (fresh h + 1,
                             \<lparr>block = snd (ArenaBlock_alloc \<lparr>data = fresh h, offset = 0\<rparr> sz al),
                              nxt = Some node\<rparr>) # nodes h,
                  buffers := fresh h # buffers h,
                  fresh := fresh h + 2\<rparr>) \<and>
         map_of (nodes h) (fresh h + 1) = None \<and>
         (fst (ArenaBlock_alloc \<lparr>data = fresh h, offset = 0\<rparr> sz al) = None
            \<longleftrightarrow> BLOCK_SIZE < sz + al)"
proof -
  have same: "snd (ArenaBlock_alloc (block nd) sz al) = block nd"
    using full by (auto simp: ArenaBlock_alloc_def Let_def split: if_splits)
  have first: "BlockNode_alloc node sz al h = Inr (None, h)"
    using head(2) full same
    by (cases "ArenaBlock_alloc (block nd) sz al")
       (simp add: BlockNode_alloc_def AList.update_triv)
  have new: "map_of (nodes h) (fresh h + 1) = None"
  proof (rule ccontr)
    assume "map_of (nodes h) (fresh h + 1) \<noteq> None"
    then have "fresh h + 1 \<in> set (map fst (nodes h))"
      by (auto dest: map_of_SomeD intro: rev_image_eqI)
    with ok show False by (auto simp: heap_ok_def list_all_iff)
  qed
  have third: "fst (ArenaBlock_alloc \<lparr>data = fresh h, offset = 0\<rparr> sz al) = None
            \<longleftrightarrow> BLOCK_SIZE < sz + al"
    by (simp add: ArenaBlock_alloc_def Let_def)
  have main: "TaggedArena_alloc ar h tag sz al =
           Inr (fst (ArenaBlock_alloc \<lparr>data = fresh h, offset = 0\<rparr> sz al),
                ar\<lparr>blocks := (blocks ar)[unat tag := Some (fresh h + 1)]\<rparr>,
                h\<lparr>nodes := (fresh h + 1,
                             \<lparr>block = snd (ArenaBlock_alloc \<lparr>data = fresh h, offset = 0\<rparr> sz al),
                              nxt = Some node\<rparr>) # nodes h,
                  buffers := fresh h # buffers h,
                  fresh := fresh h + 2\<rparr>)"
    using tag sz head(1) first
    by (cases "ArenaBlock_alloc \<lparr>data = fresh h, offset = 0\<rparr> sz al")
       (simp add: TaggedArena_alloc_def not_less [symmetric] ArenaBlock_new_def BlockNode_new_def
          BlockNode_alloc_def)
  from main new third show ?thesis by blast
qed

theorem failed_growth_keeps_new_block_witness:
  "GAME \<noteq> COUNT \<and>
   unat GAME < length (blocks (fst fresh_arena)) \<and>
   (8 :: size_t) \<le> BLOCK_SIZE \<and>
   blocks (fst fresh_arena) ! unat GAME = Some 3 \<and>
   map_of (nodes (snd fresh_arena)) 3 = Some \<lparr>block = \<lparr>data = 2, offset = 0\<rparr>, nxt = None\<rparr> \<and>
   fst (ArenaBlock_alloc \<lparr>data = 2, offset = 0\<rparr> 8 BLOCK_SIZE) = None \<and>
   heap_ok (snd fresh_arena) \<and>
   TaggedArena_alloc (fst fresh_arena) (snd fresh_arena) GAME 8 BLOCK_SIZE =
     Inr (None, \<lparr>blocks = [Some 1, Some 7, Some 5]\<rparr>,
      \<lparr>nodes =
         [(7, \<lparr>block = \<lparr>data = 6, offset = 0\<rparr>, nxt = Some 3\<rparr>),
          (5, \<lparr>block = \<lparr>data = 4, offset = 0\<rparr>, nxt = None\<rparr>),
          (3, \<lparr>block = \<lparr>data = 2, offset = 0\<rparr>, nxt = None\<rparr>),
          (1, \<lparr>block = \<lparr>data = 0, offset = 0\<rparr>, nxt = None\<rparr>)],
         buffers = [6, 4, 2, 0], objects = [], fresh = 8\<rparr>) \<and>
   map_of (nodes (snd fresh_arena)) 7 = None"
proof -
  let ?nd = "\<lparr>block = \<lparr>data = 2, offset = 0\<rparr>, nxt = None\<rparr>"
  have h1: "GAME \<noteq> COUNT" by (simp add: GAME_def COUNT_def)
  have h2: "unat GAME < length (blocks (fst fresh_arena))"
    by (simp add: fresh_arena_eq GAME_def)
  have h3: "(8 :: size_t) \<le> BLOCK_SIZE" by (simp add: BLOCK_SIZE_def)
  have h4: "blocks (fst fresh_arena) ! unat GAME = Some 3"
    by (simp add: fresh_arena_eq GAME_def)
  have h5: "map_of (nodes (snd fresh_arena)) 3 = Some ?nd"
    by (simp add: fresh_arena_eq)
  have h6: "fst (ArenaBlock_alloc (block ?nd) 8 BLOCK_SIZE) = None"
    by (simp add: ArenaBlock_alloc_def BLOCK_SIZE_def)
  have h7: "heap_ok (snd fresh_arena)"
    by (simp add: fresh_arena_eq heap_ok_def)
  have new: "ArenaBlock_alloc \<lparr>data = 6, offset = 0\<rparr> 8 BLOCK_SIZE = (None, \<lparr>data = 6, offset = 0\<rparr>)"
    by (simp add: ArenaBlock_alloc_def BLOCK_SIZE_def)
  note grown = failed_growth_keeps_new_block [OF h1 h2 h3 h4 h5 h6 h7]
  have f: "fresh (snd fresh_arena) = 6" by (simp add: fresh_arena_eq)
  from grown have run: "TaggedArena_alloc (fst fresh_arena) (snd fresh_arena) GAME 8 BLOCK_SIZE =
     Inr (None, \<lparr>blocks = [Some 1, Some 7, Some 5]\<rparr>,
      \<lparr>nodes =
         [(7, \<lparr>block = \<lparr>data = 6, offset = 0\<rparr>, nxt = Some 3\<rparr>),
          (5, \<lparr>block = \<lparr>data = 4, offset = 0\<rparr>, nxt = None\<rparr>),
          (3, \<lparr>block = \<lparr>data = 2, offset = 0\<rparr>, nxt = None\<rparr>),
          (1, \<lparr>block = \<lparr>data = 0, offset = 0\<rparr>, nxt = None\<rparr>)],
         buffers = [6, 4, 2, 0], objects = [], fresh = 8\<rparr>)"
    unfolding f new by (simp add: fresh_arena_eq GAME_def)
  from grown have fresh_node: "map_of (nodes (snd fresh_arena)) 7 = None"
    unfolding f by simp
  from h1 h2 h3 h4 h5 h6 h7 run fresh_node show ?thesis by simp
qed

end
